theory Spec2Isabelle
  imports Complex_Main "HOL-Library.Word"
begin

section \<open>The vehicle chaincode\<close>

text \<open>
  The chaincode is the Go program that follows the JavaScript of
  \<^verbatim>\<open>src/Server_Side/blockchain/assets/vehicles/vehicle/owner/CRUD/read.js\<close>.
  Each definition below carries the name of the Go function it embeds.

  The Go text does not type-check as it stands; the places where the model has to read
  it one way are these, and each is repeated at the definition concerned.
  \<^item> The handlers read \<^verbatim>\<open>Status\<close>, \<^verbatim>\<open>Scrapped\<close>, \<^verbatim>\<open>Make\<close>, \<^verbatim>\<open>Name\<close>,
    \<^verbatim>\<open>Reg\<close>, \<^verbatim>\<open>Colour\<close>, \<^verbatim>\<open>VIN\<close> and \<^verbatim>\<open>V5cID\<close> of a \<^verbatim>\<open>Product\<close>, which the
    struct does not declare. The record has the declared fields and these.
  \<^item> An \<^verbatim>\<open>int\<close> identifier is used where a \<^verbatim>\<open>string\<close> key is expected and the other
    way round; the conversions are \<^verbatim>\<open>strconv.Itoa\<close> and \<^verbatim>\<open>strconv.Atoi\<close>. Numbers are
    joined to strings in the text of \<^verbatim>\<open>create_product\<close>; there they stand as text.
  \<^item> \<^verbatim>\<open>Invoke\<close> binds eight values and \<^verbatim>\<open>err\<close> from \<^verbatim>\<open>get_caller_data\<close>, which
    returns two values and \<^verbatim>\<open>err\<close>; \<^verbatim>\<open>create_product\<close> reads an undeclared
    \<^verbatim>\<open>caller_affiliation\<close>. These values are parameters of the model.
  \<^item> \<^verbatim>\<open>getAllUsedProductIds\<close> is declared to return \<^verbatim>\<open>bool\<close> and returns a slice, or
    \<^verbatim>\<open>nil\<close> together with an error; its caller takes one value, the slice.
  \<^item> The packages the chaincode imports (json, x509, pem, url, http, rand) are outside
    the program; what they return is a parameter of the model or, for json on the
    structs of the ledger, is read off a JSON document kept as one piece of text.
\<close>

subsection \<open>Participant types and status types\<close>

definition GOVERNMENT :: int where "GOVERNMENT = 1"
definition MANUFACTURER :: int where "MANUFACTURER = 2"
definition BUYER :: int where "BUYER = 3"
definition MANUFACTURER_BANK :: int where "MANUFACTURER_BANK = 4"
definition BUYER_BANK :: int where "BUYER_BANK = 5"
definition SHIPPER :: int where "SHIPPER = 6"
definition PRODUCT :: int where "PRODUCT = 7"

definition STATE_SALESCONTRACT :: int where "STATE_SALESCONTRACT = 0"
definition STATE_ACCREDITIVE :: int where "STATE_ACCREDITIVE = 1"
definition STATE_CHECK_ACCREDITIVE :: int where "STATE_CHECK_ACCREDITIVE = 2"
definition STATE_MANUFACTURE :: int where "STATE_MANUFACTURE = 3"
definition STATE_SHIPPING :: int where "STATE_SHIPPING = 4"
definition STATE_PAYMENT :: int where "STATE_PAYMENT = 5"
definition STATE_INUSE :: int where "STATE_INUSE = 6"
definition STATE_SCRAPPED :: int where "STATE_SCRAPPED = 7"

subsection \<open>Structure definitions\<close>

text \<open>
  \<^verbatim>\<open>Product\<close>: the fifteen declared fields in the order of the struct, then the fields the
  functions read without a declaration. \<^verbatim>\<open>float32\<close> fields are reals (no function
  computes with them), \<^verbatim>\<open>byte\<close> is an 8-bit word, \<^verbatim>\<open>int\<close> is an integer.
\<close>

record Product =
  Product_Id :: string
  CheckId :: string
  Manufacturer :: string
  Owner :: string
  Origin :: string
  Current_location :: string
  Destination :: string
  Route :: string
  State :: int
  Price :: real
  Currency :: string
  Width :: real
  Height :: real
  Weight :: real
  Sales_contract :: "8 word"
  Status :: int
  Scrapped :: bool
  Make :: string
  Name :: string
  Reg :: string
  Colour :: string
  VIN :: int
  V5cID :: string

record Product_Id_Holder =
  ProductIds :: "int list"

record ECertResponse =
  OK :: string
  Error :: string

subsection \<open>Bytes, errors and the ledger\<close>

text \<open>
  A byte string is a list of pieces: a character, or the text of one JSON document, kept
  as one piece. A document is given by what \<^verbatim>\<open>json.Unmarshal\<close> makes of it for the two
  structs the chaincode decodes into: the \<^verbatim>\<open>Product\<close> it yields and the
  \<^verbatim>\<open>Product_Id_Holder\<close> it yields, each \<open>None\<close> where \<^verbatim>\<open>json.Unmarshal\<close> reports an
  error for that struct. Concatenation, length and slicing work on byte strings as they
  do in the Go text.

  \<^verbatim>\<open>json.Unmarshal\<close> skips the members of an object that name no field of the struct, so
  it decodes any object without an error as long as the members it does use have the
  right type. The text of a \<^verbatim>\<open>Product\<close> (members named after the fields) has no member
  \<^verbatim>\<open>productIds\<close>: it decodes to a holder with no identifiers. The text of a holder has
  no member named after a field of \<^verbatim>\<open>Product\<close>: it decodes to the \<^verbatim>\<open>Product\<close> of zero
  values.

  Character pieces make up the texts that are not one JSON document: the peer address,
  the brackets and commas that \<^verbatim>\<open>get_vehicles\<close> puts around the documents, and the text
  that \<^verbatim>\<open>create_product\<close> concatenates (see \<open>product_json\<close>).
\<close>

datatype piece = Ch char | JSON "Product option" "Product_Id_Holder option"

definition zero_Product :: Product where
  "zero_Product =
     \<lparr>Product_Id = [], CheckId = [], Manufacturer = [], Owner = [], Origin = [],
      Current_location = [], Destination = [], Route = [], State = 0, Price = 0,
      Currency = [], Width = 0, Height = 0, Weight = 0, Sales_contract = 0, Status = 0,
      Scrapped = False, Make = [], Name = [], Reg = [], Colour = [], VIN = 0, V5cID = []\<rparr>"

abbreviation ProductJSON :: "Product \<Rightarrow> piece" where
  "ProductJSON product \<equiv> JSON (Some product) (Some \<lparr>ProductIds = []\<rparr>)"

abbreviation HolderJSON :: "Product_Id_Holder \<Rightarrow> piece" where
  "HolderJSON h \<equiv> JSON (Some zero_Product) (Some h)"

type_synonym bytes = "piece list"

definition str :: "string \<Rightarrow> bytes" where
  "str s = map Ch s"

text \<open>
  An error is the message given to \<^verbatim>\<open>errors.New\<close>, or a run-time panic of Go (an index
  out of range, a nil dereference). A function returning \<^verbatim>\<open>([]byte, error)\<close> returns
  \<open>Inl\<close> of the error, or \<open>Inr\<close> of the bytes, \<open>None\<close> for \<^verbatim>\<open>nil\<close>.
\<close>

datatype error = Err bytes | Panic string

type_synonym response = "error + bytes option"

text \<open>
  The stub: the ledger, which keys fail on \<^verbatim>\<open>GetState\<close> and on \<^verbatim>\<open>PutState\<close>, the
  certificate of the caller (\<open>None\<close> when \<^verbatim>\<open>GetCallerCertificate\<close> errs), and the log of the
  puts that were carried out, oldest first.
\<close>

record ChaincodeStub =
  ledger :: "string \<Rightarrow> bytes option"
  get_fails :: "string \<Rightarrow> bool"
  put_fails :: "string \<Rightarrow> bool"
  put_log :: "(string \<times> bytes) list"
  caller_certificate :: "string option"

text \<open>\<^verbatim>\<open>GetState\<close> returns the bytes (\<open>None\<close> is \<^verbatim>\<open>nil\<close>) and whether \<^verbatim>\<open>err != nil\<close>.\<close>

definition GetState :: "ChaincodeStub \<Rightarrow> string \<Rightarrow> bytes option \<times> bool" where
  "GetState stub key =
     (if get_fails stub key then (None, True) else (ledger stub key, False))"

text \<open>\<^verbatim>\<open>PutState\<close> returns whether \<^verbatim>\<open>err != nil\<close>, and the stub after the call.\<close>

definition PutState :: "ChaincodeStub \<Rightarrow> string \<Rightarrow> bytes \<Rightarrow> bool \<times> ChaincodeStub" where
  "PutState stub key val =
     (if put_fails stub key then (True, stub)
      else (False, stub\<lparr>ledger := (ledger stub)(key \<mapsto> val),
                         put_log := put_log stub @ [(key, val)]\<rparr>))"

subsection \<open>encoding/json\<close>

text \<open>
  \<^verbatim>\<open>json.Marshal\<close> of a struct of strings, integers and finite numbers has no error case;
  the model keeps the result an option so that the callers keep their error branch.
\<close>

definition Marshal_Product :: "Product \<Rightarrow> bytes option" where
  "Marshal_Product product = Some [ProductJSON product]"

definition Marshal_Holder :: "Product_Id_Holder \<Rightarrow> bytes option" where
  "Marshal_Holder h = Some [HolderJSON h]"

text \<open>
  \<^verbatim>\<open>json.Unmarshal\<close> into a \<^verbatim>\<open>Product\<close> and into a \<^verbatim>\<open>Product_Id_Holder\<close>: what the
  document yields for that struct; an error for \<^verbatim>\<open>nil\<close> and for a text that is not one
  document.
\<close>

fun Unmarshal_Product :: "bytes option \<Rightarrow> Product option" where
  "Unmarshal_Product (Some [JSON as_product as_holder]) = as_product"
| "Unmarshal_Product _ = None"

fun Unmarshal_Holder :: "bytes option \<Rightarrow> Product_Id_Holder option" where
  "Unmarshal_Holder (Some [JSON as_product as_holder]) = as_holder"
| "Unmarshal_Holder _ = None"

text \<open>\<^verbatim>\<open>string(bytes)\<close> of a \<^verbatim>\<open>nil\<close> slice is the empty string.\<close>

definition string_of :: "bytes option \<Rightarrow> bytes" where
  "string_of b = (case b of None \<Rightarrow> [] | Some bs \<Rightarrow> bs)"

subsection \<open>strconv and strings\<close>

text \<open>\<^verbatim>\<open>strconv.Itoa\<close>: the decimal text of an integer.\<close>

fun digits :: "nat \<Rightarrow> string" where
  "digits n = (if n < 10 then [''0123456789'' ! n]
               else digits (n div 10) @ [''0123456789'' ! (n mod 10)])"

declare digits.simps [simp del]

definition Itoa :: "int \<Rightarrow> string" where
  "Itoa i = (if i < 0 then CHR ''-'' # digits (nat (- i)) else digits (nat i))"

text \<open>
  \<^verbatim>\<open>strconv.Atoi\<close> returns the value and whether \<^verbatim>\<open>err != nil\<close>: an optional sign and then
  one or more decimal digits; on a syntax error the value is 0, and a value outside the
  64-bit range is replaced by the nearest bound, with an error.
\<close>

definition digit_val :: "char \<Rightarrow> nat option" where
  "digit_val c =
     (if (48::nat) \<le> of_char c \<and> of_char c \<le> (57::nat) then Some (of_char c - 48) else None)"

fun parse_digits :: "nat \<Rightarrow> string \<Rightarrow> nat option" where
  "parse_digits acc [] = Some acc"
| "parse_digits acc (c # cs) =
     (case digit_val c of None \<Rightarrow> None | Some d \<Rightarrow> parse_digits (10 * acc + d) cs)"

definition Atoi :: "string \<Rightarrow> int \<times> bool" where
  "Atoi s =
     (let neg = (s \<noteq> [] \<and> hd s = CHR ''-'');
          body = (if s \<noteq> [] \<and> (hd s = CHR ''-'' \<or> hd s = CHR ''+'') then tl s else s)
      in if body = [] then (0, True)
         else (case parse_digits 0 body of
                 None \<Rightarrow> (0, True)
               | Some n \<Rightarrow>
                   if neg then (if int n > 2 ^ 63 then (- (2 ^ 63), True) else (- int n, False))
                   else (if int n > 2 ^ 63 - 1 then (2 ^ 63 - 1, True) else (int n, False))))"

text \<open>\<^verbatim>\<open>strings.Split(s, sep)\<close> for a separator of one character.\<close>

fun Split :: "string \<Rightarrow> char \<Rightarrow> string list" where
  "Split [] sep = [[]]"
| "Split (c # cs) sep =
     (if c = sep then [] # Split cs sep
      else (case Split cs sep of [] \<Rightarrow> [[c]] | w # ws \<Rightarrow> (c # w) # ws))"

text \<open>\<^verbatim>\<open>strings.Contains(s, substr)\<close>.\<close>

fun HasPrefix :: "string \<Rightarrow> string \<Rightarrow> bool" where
  "HasPrefix s [] = True"
| "HasPrefix [] (p # ps) = False"
| "HasPrefix (c # cs) (p # ps) = (c = p \<and> HasPrefix cs ps)"

fun Contains :: "string \<Rightarrow> string \<Rightarrow> bool" where
  "Contains [] substr = (substr = [])"
| "Contains (c # cs) substr = (HasPrefix (c # cs) substr \<or> Contains cs substr)"

subsection \<open>retrieve_product and save_changes\<close>

definition retrieve_product :: "ChaincodeStub \<Rightarrow> string \<Rightarrow> error + Product" where
  "retrieve_product stub productId =
     (case GetState stub productId of
        (bytes, True) \<Rightarrow>
          Inl (Err (str ''RETRIEVE_V5C: Error retrieving vehicle with pid = '' @ str productId))
      | (bytes, False) \<Rightarrow>
          (case Unmarshal_Product bytes of
             None \<Rightarrow> Inl (Err (str ''RETRIEVE_PRODUCT: Corrupt product record'' @ string_of bytes))
           | Some product \<Rightarrow> Inr product))"

definition save_changes :: "ChaincodeStub \<Rightarrow> Product \<Rightarrow> (error + bool) \<times> ChaincodeStub" where
  "save_changes stub product =
     (case Marshal_Product product of
        None \<Rightarrow> (Inl (Err (str ''Error converting vehicle record'')), stub)
      | Some bytes \<Rightarrow>
          (case PutState stub (Product_Id product) bytes of
             (True, stub') \<Rightarrow> (Inl (Err (str ''Error storing vehicle record'')), stub')
           | (False, stub') \<Rightarrow> (Inr True, stub')))"

subsection \<open>Transfer functions\<close>

text \<open>
  Every handler tests one conjunction; when it holds the handler changes its copy of the
  product and calls \<^verbatim>\<open>save_changes\<close>, otherwise it returns an error and calls nothing.
  The success value is \<^verbatim>\<open>(nil, nil)\<close>.
\<close>

definition manufacturer_to_buyer ::
  "ChaincodeStub \<Rightarrow> Product \<Rightarrow> string \<Rightarrow> int \<Rightarrow> string \<Rightarrow> int \<Rightarrow> response \<times> ChaincodeStub" where
  "manufacturer_to_buyer stub v caller caller_affiliation recipient_name recipient_affiliation =
     (if Status v = STATE_SALESCONTRACT \<and>
         Owner v = caller \<and>
         caller_affiliation = GOVERNMENT \<and>
         recipient_affiliation = MANUFACTURER \<and>
         Scrapped v = False
      then (case save_changes stub (v\<lparr>Owner := recipient_name, Status := STATE_ACCREDITIVE\<rparr>) of
              (Inl err, stub') \<Rightarrow> (Inl (Err (str ''Error saving changes'')), stub')
            | (Inr ok, stub') \<Rightarrow> (Inr None, stub'))
      else (Inl (Err (str ''Permission Denied'')), stub))"

text \<open>
  \<^verbatim>\<open>manufacturer_to_bank\<close> first refuses a product with an undefined part, with an error
  of its own.
\<close>

definition manufacturer_to_bank ::
  "ChaincodeStub \<Rightarrow> Product \<Rightarrow> string \<Rightarrow> int \<Rightarrow> string \<Rightarrow> int \<Rightarrow> response \<times> ChaincodeStub" where
  "manufacturer_to_bank stub v caller caller_affiliation recipient_name recipient_affiliation =
     (if Make v = ''UNDEFINED'' \<or>
         Name v = ''UNDEFINED'' \<or>
         Reg v = ''UNDEFINED'' \<or>
         Colour v = ''UNDEFINED'' \<or>
         VIN v = 0
      then (Inl (Err (str ''Car not fully defined'')), stub)
      else
        (if Status v = STATE_ACCREDITIVE \<and>
            Owner v = caller \<and>
            caller_affiliation = MANUFACTURER \<and>
            recipient_affiliation = BUYER \<and>
            Scrapped v = False
         then (case save_changes stub
                      (v\<lparr>Owner := recipient_name, Status := STATE_CHECK_ACCREDITIVE\<rparr>) of
                 (Inl err, stub') \<Rightarrow> (Inl (Err (str ''Error saving changes'')), stub')
               | (Inr ok, stub') \<Rightarrow> (Inr None, stub'))
         else (Inl (Err (str ''Permission denied'')), stub)))"

definition buyer_to_buyer ::
  "ChaincodeStub \<Rightarrow> Product \<Rightarrow> string \<Rightarrow> int \<Rightarrow> string \<Rightarrow> int \<Rightarrow> response \<times> ChaincodeStub" where
  "buyer_to_buyer stub v caller caller_affiliation recipient_name recipient_affiliation =
     (if Status v = STATE_CHECK_ACCREDITIVE \<and>
         Owner v = caller \<and>
         caller_affiliation = BUYER \<and>
         recipient_affiliation = BUYER \<and>
         Scrapped v = False
      then (case save_changes stub (v\<lparr>Owner := recipient_name\<rparr>) of
              (Inl err, stub') \<Rightarrow> (Inl (Err (str ''Error saving changes'')), stub')
            | (Inr ok, stub') \<Rightarrow> (Inr None, stub'))
      else (Inl (Err (str ''Permission denied'')), stub))"

definition private_to_lease_company ::
  "ChaincodeStub \<Rightarrow> Product \<Rightarrow> string \<Rightarrow> int \<Rightarrow> string \<Rightarrow> int \<Rightarrow> response \<times> ChaincodeStub" where
  "private_to_lease_company stub v caller caller_affiliation recipient_name recipient_affiliation =
     (if Status v = STATE_CHECK_ACCREDITIVE \<and>
         Owner v = caller \<and>
         caller_affiliation = BUYER \<and>
         recipient_affiliation = MANUFACTURER_BANK \<and>
         Scrapped v = False
      then (case save_changes stub (v\<lparr>Owner := recipient_name\<rparr>) of
              (Inl err, stub') \<Rightarrow> (Inl (Err (str ''Error saving changes'')), stub')
            | (Inr ok, stub') \<Rightarrow> (Inr None, stub'))
      else (Inl (Err (str ''Permission denied'')), stub))"

definition lease_company_to_private ::
  "ChaincodeStub \<Rightarrow> Product \<Rightarrow> string \<Rightarrow> int \<Rightarrow> string \<Rightarrow> int \<Rightarrow> response \<times> ChaincodeStub" where
  "lease_company_to_private stub v caller caller_affiliation recipient_name recipient_affiliation =
     (if Status v = STATE_CHECK_ACCREDITIVE \<and>
         Owner v = caller \<and>
         caller_affiliation = MANUFACTURER_BANK \<and>
         recipient_affiliation = BUYER \<and>
         Scrapped v = False
      then (case save_changes stub (v\<lparr>Owner := recipient_name\<rparr>) of
              (Inl err, stub') \<Rightarrow> (Inl (Err (str ''Error saving changes'')), stub')
            | (Inr ok, stub') \<Rightarrow> (Inr None, stub'))
      else (Inl (Err (str ''Permission denied'')), stub))"

definition private_to_scrap_merchant ::
  "ChaincodeStub \<Rightarrow> Product \<Rightarrow> string \<Rightarrow> int \<Rightarrow> string \<Rightarrow> int \<Rightarrow> response \<times> ChaincodeStub" where
  "private_to_scrap_merchant stub v caller caller_affiliation recipient_name recipient_affiliation =
     (if Status v = STATE_CHECK_ACCREDITIVE \<and>
         Owner v = caller \<and>
         caller_affiliation = BUYER \<and>
         recipient_affiliation = BUYER_BANK \<and>
         Scrapped v = False
      then (case save_changes stub (v\<lparr>Owner := recipient_name, Status := STATE_SHIPPING\<rparr>) of
              (Inl err, stub') \<Rightarrow> (Inl (Err (str ''Error saving changes'')), stub')
            | (Inr ok, stub') \<Rightarrow> (Inr None, stub'))
      else (Inl (Err (str ''Permission denied'')), stub))"

subsection \<open>Update functions and scrap_vehicle\<close>

definition update_registration ::
  "ChaincodeStub \<Rightarrow> Product \<Rightarrow> string \<Rightarrow> int \<Rightarrow> string \<Rightarrow> response \<times> ChaincodeStub" where
  "update_registration stub v caller caller_affiliation new_value =
     (if Owner v = caller \<and>
         caller_affiliation \<noteq> BUYER_BANK \<and>
         Scrapped v = False
      then (case save_changes stub (v\<lparr>Reg := new_value\<rparr>) of
              (Inl err, stub') \<Rightarrow> (Inl (Err (str ''Error saving changes'')), stub')
            | (Inr ok, stub') \<Rightarrow> (Inr None, stub'))
      else (Inl (Err (str ''Permission denied'')), stub))"

definition update_colour ::
  "ChaincodeStub \<Rightarrow> Product \<Rightarrow> string \<Rightarrow> int \<Rightarrow> string \<Rightarrow> response \<times> ChaincodeStub" where
  "update_colour stub v caller caller_affiliation new_value =
     (if Owner v = caller \<and>
         caller_affiliation = MANUFACTURER \<and>
         Scrapped v = False
      then (case save_changes stub (v\<lparr>Colour := new_value\<rparr>) of
              (Inl err, stub') \<Rightarrow> (Inl (Err (str ''Error saving changes'')), stub')
            | (Inr ok, stub') \<Rightarrow> (Inr None, stub'))
      else (Inl (Err (str ''Permission denied'')), stub))"

definition update_make ::
  "ChaincodeStub \<Rightarrow> Product \<Rightarrow> string \<Rightarrow> int \<Rightarrow> string \<Rightarrow> response \<times> ChaincodeStub" where
  "update_make stub v caller caller_affiliation new_value =
     (if Status v = STATE_ACCREDITIVE \<and>
         Owner v = caller \<and>
         caller_affiliation = MANUFACTURER \<and>
         Scrapped v = False
      then (case save_changes stub (v\<lparr>Make := new_value\<rparr>) of
              (Inl err, stub') \<Rightarrow> (Inl (Err (str ''Error saving changes'')), stub')
            | (Inr ok, stub') \<Rightarrow> (Inr None, stub'))
      else (Inl (Err (str ''Permission denied'')), stub))"

definition update_model ::
  "ChaincodeStub \<Rightarrow> Product \<Rightarrow> string \<Rightarrow> int \<Rightarrow> string \<Rightarrow> response \<times> ChaincodeStub" where
  "update_model stub v caller caller_affiliation new_value =
     (if Status v = STATE_ACCREDITIVE \<and>
         Owner v = caller \<and>
         caller_affiliation = MANUFACTURER \<and>
         Scrapped v = False
      then (case save_changes stub (v\<lparr>Name := new_value\<rparr>) of
              (Inl err, stub') \<Rightarrow> (Inl (Err (str ''Error saving changes'')), stub')
            | (Inr ok, stub') \<Rightarrow> (Inr None, stub'))
      else (Inl (Err (str ''Permission denied'')), stub))"

definition scrap_vehicle ::
  "ChaincodeStub \<Rightarrow> Product \<Rightarrow> string \<Rightarrow> int \<Rightarrow> response \<times> ChaincodeStub" where
  "scrap_vehicle stub v caller caller_affiliation =
     (if Status v = STATE_SHIPPING \<and>
         Owner v = caller \<and>
         caller_affiliation = BUYER_BANK \<and>
         Scrapped v = False
      then (case save_changes stub (v\<lparr>Scrapped := True\<rparr>) of
              (Inl err, stub') \<Rightarrow> (Inl (Err (str ''SCRAP_VEHICLError saving changes'')), stub')
            | (Inr ok, stub') \<Rightarrow> (Inr None, stub'))
      else (Inl (Err (str ''Permission denied'')), stub))"

subsection \<open>The handlers as one function\<close>

text \<open>
  The calls that \<^verbatim>\<open>Invoke\<close> keeps in a comment: each handler with the product, the caller
  and its affiliation, and \<^verbatim>\<open>args[0]\<close> as recipient or new value. \<open>perform\<close> makes the
  eleven handlers one function of the handler's name, so that a statement can speak of
  all of them.
\<close>

datatype handler =
    H_manufacturer_to_buyer | H_manufacturer_to_bank | H_buyer_to_buyer
  | H_private_to_lease_company | H_lease_company_to_private | H_private_to_scrap_merchant
  | H_update_registration | H_update_colour | H_update_make | H_update_model
  | H_scrap_vehicle

fun perform ::
  "ChaincodeStub \<Rightarrow> Product \<Rightarrow> handler \<Rightarrow> string \<Rightarrow> int \<Rightarrow> string \<Rightarrow> int \<Rightarrow> response \<times> ChaincodeStub" where
  "perform stub v H_manufacturer_to_buyer caller ca arg ra = manufacturer_to_buyer stub v caller ca arg ra"
| "perform stub v H_manufacturer_to_bank caller ca arg ra = manufacturer_to_bank stub v caller ca arg ra"
| "perform stub v H_buyer_to_buyer caller ca arg ra = buyer_to_buyer stub v caller ca arg ra"
| "perform stub v H_private_to_lease_company caller ca arg ra = private_to_lease_company stub v caller ca arg ra"
| "perform stub v H_lease_company_to_private caller ca arg ra = lease_company_to_private stub v caller ca arg ra"
| "perform stub v H_private_to_scrap_merchant caller ca arg ra = private_to_scrap_merchant stub v caller ca arg ra"
| "perform stub v H_update_registration caller ca arg ra = update_registration stub v caller ca arg"
| "perform stub v H_update_colour caller ca arg ra = update_colour stub v caller ca arg"
| "perform stub v H_update_make caller ca arg ra = update_make stub v caller ca arg"
| "perform stub v H_update_model caller ca arg ra = update_model stub v caller ca arg"
| "perform stub v H_scrap_vehicle caller ca arg ra = scrap_vehicle stub v caller ca"

text \<open>
  A run of calls on the asset stored under one key: each call loads the asset with
  \<^verbatim>\<open>retrieve_product\<close> and hands it to the handler, and the run goes on only while the
  calls succeed. A call is the handler, the caller, its affiliation, \<^verbatim>\<open>args[0]\<close> and the
  affiliation of the recipient.
\<close>

type_synonym call = "handler \<times> string \<times> int \<times> string \<times> int"

fun run :: "ChaincodeStub \<Rightarrow> string \<Rightarrow> call list \<Rightarrow> ChaincodeStub option" where
  "run stub pid [] = Some stub"
| "run stub pid ((h, caller, ca, arg, ra) # calls) =
     (case retrieve_product stub pid of
        Inl err \<Rightarrow> None
      | Inr v \<Rightarrow>
          (case perform stub v h caller ca arg ra of
             (Inl err, stub') \<Rightarrow> None
           | (Inr ok, stub') \<Rightarrow> run stub' pid calls))"

subsection \<open>Identity: get_username, get_ecert, check_affiliation, get_caller_data\<close>

text \<open>
  What the chaincode consumes from outside is a parameter of the model:
  \<^item> \<open>ParseCertificate\<close>: \<^verbatim>\<open>x509.ParseCertificate\<close> followed by \<^verbatim>\<open>.Subject.CommonName\<close>,
    \<open>None\<close> for a parse error;
  \<^item> \<open>QueryUnescape\<close>: \<^verbatim>\<open>url.QueryUnescape\<close>, \<open>None\<close> for an error;
  \<^item> \<open>Decode\<close>: \<^verbatim>\<open>pem.Decode\<close> followed by \<^verbatim>\<open>.Bytes\<close>, \<open>None\<close> when no block is found
    (the block is \<^verbatim>\<open>nil\<close> and reading its field panics);
  \<^item> \<open>Get\<close>: \<^verbatim>\<open>http.Get\<close> and \<^verbatim>\<open>ioutil.ReadAll\<close> of the body;
  \<^item> \<open>Unmarshal_ECertResponse\<close>: \<^verbatim>\<open>json.Unmarshal\<close> of the body into an \<^verbatim>\<open>ECertResponse\<close>;
  \<^item> \<open>FormatFloat\<close>: the text of a \<^verbatim>\<open>float32\<close>, for the price that \<^verbatim>\<open>create_product\<close>
    concatenates into its text.
\<close>

datatype http_result = Get_failed | ReadAll_failed | Body string

record World =
  ParseCertificate :: "string \<Rightarrow> string option"
  QueryUnescape :: "string \<Rightarrow> string option"
  Decode :: "string \<Rightarrow> string option"
  Get :: "bytes \<Rightarrow> http_result"
  Unmarshal_ECertResponse :: "string \<Rightarrow> ECertResponse option"
  FormatFloat :: "real \<Rightarrow> string"

definition get_ecert :: "World \<Rightarrow> ChaincodeStub \<Rightarrow> string \<Rightarrow> error + string" where
  "get_ecert W stub name =
     (case GetState stub ''Peer_Address'' of
        (peer_address, True) \<Rightarrow> Inl (Err (str ''Error retrieving peer address''))
      | (peer_address, False) \<Rightarrow>
          (case Get W (str ''http://'' @ string_of peer_address @ str ''/registrar/'' @
                       str name @ str ''/ecert'') of
             Get_failed \<Rightarrow> Inl (Err (str ''Error calling ecert API''))
           | ReadAll_failed \<Rightarrow> Inl (Err (str ''Could not read body''))
           | Body contents \<Rightarrow>
               (case Unmarshal_ECertResponse W contents of
                  None \<Rightarrow> Inl (Err (str ''Could not retrieve ecert for user: '' @ str name))
                | Some cert \<Rightarrow>
                    if Error cert \<noteq> [] then Inl (Err (str (Error cert)))
                    else Inr (OK cert))))"

definition get_username :: "World \<Rightarrow> ChaincodeStub \<Rightarrow> error + string" where
  "get_username W stub =
     (case caller_certificate stub of
        None \<Rightarrow> Inl (Err (str ''Couldn't retrieve caller certificate''))
      | Some bytes \<Rightarrow>
          (case ParseCertificate W bytes of
             None \<Rightarrow> Inl (Err (str ''Couldn't parse certificate''))
           | Some cn \<Rightarrow> Inr cn))"

text \<open>
  \<^verbatim>\<open>check_affiliation\<close>: the common name is split on the backslash and \<^verbatim>\<open>res[2]\<close> is read
  without a test of the length; the error of \<^verbatim>\<open>strconv.Atoi\<close> is dropped.
\<close>

definition check_affiliation :: "World \<Rightarrow> string \<Rightarrow> error + int" where
  "check_affiliation W cert =
     (case QueryUnescape W cert of
        None \<Rightarrow> Inl (Err (str ''Could not decode certificate''))
      | Some decodedCert \<Rightarrow>
          (case Decode W decodedCert of
             None \<Rightarrow> Inl (Panic ''nil pointer dereference'')
           | Some pem_Bytes \<Rightarrow>
               (case ParseCertificate W pem_Bytes of
                  None \<Rightarrow> Inl (Err (str ''Couldn't parse certificate''))
                | Some cn \<Rightarrow>
                    (let res = Split cn (CHR 0x5C)
                     in if length res \<le> 2 then Inl (Panic ''index out of range'')
                        else Inr (fst (Atoi (res ! 2)))))))"

definition get_caller_data :: "World \<Rightarrow> ChaincodeStub \<Rightarrow> error + string \<times> int" where
  "get_caller_data W stub =
     (case get_username W stub of
        Inl err \<Rightarrow> Inl err
      | Inr user \<Rightarrow>
          (case get_ecert W stub user of
             Inl err \<Rightarrow> Inl err
           | Inr ecert \<Rightarrow>
               (case check_affiliation W ecert of
                  Inl err \<Rightarrow> Inl err
                | Inr affiliation \<Rightarrow> Inr (user, affiliation))))"

subsection \<open>Read functions\<close>

text \<open>
  \<^verbatim>\<open>get_vehicle_details\<close> and \<^verbatim>\<open>get_vehicles\<close> receive the stub like the handlers, and
  like them return the stub after the call.
\<close>

definition get_vehicle_details ::
  "ChaincodeStub \<Rightarrow> Product \<Rightarrow> string \<Rightarrow> int \<Rightarrow> response \<times> ChaincodeStub" where
  "get_vehicle_details stub v caller caller_affiliation =
     (case Marshal_Product v of
        None \<Rightarrow> (Inl (Err (str ''GET_VEHICLE_DETAILS: Invalid vehicle object'')), stub)
      | Some bytes \<Rightarrow>
          if Owner v = caller \<or> caller_affiliation = GOVERNMENT
          then (Inr (Some bytes), stub)
          else (Inl (Err (str ''Permission Denied'')), stub))"

text \<open>
  The loop of \<^verbatim>\<open>get_vehicles\<close> over the identifiers of the holder, with the text
  \<^verbatim>\<open>result\<close> built so far. The identifier, an \<^verbatim>\<open>int\<close>, is passed where the key is expected.
\<close>

fun get_vehicles_loop ::
  "ChaincodeStub \<Rightarrow> string \<Rightarrow> int \<Rightarrow> int list \<Rightarrow> bytes \<Rightarrow> error + bytes" where
  "get_vehicles_loop stub caller caller_affiliation [] result = Inr result"
| "get_vehicles_loop stub caller caller_affiliation (v5c # rest) result =
     (case retrieve_product stub (Itoa v5c) of
        Inl err \<Rightarrow> Inl (Err (str ''Failed to retrieve V5C''))
      | Inr v \<Rightarrow>
          (case get_vehicle_details stub v caller caller_affiliation of
             (Inr temp, stub') \<Rightarrow>
               get_vehicles_loop stub caller caller_affiliation rest
                 (result @ string_of temp @ str '','')
           | (Inl err, stub') \<Rightarrow>
               get_vehicles_loop stub caller caller_affiliation rest result))"

definition get_vehicles ::
  "ChaincodeStub \<Rightarrow> string \<Rightarrow> int \<Rightarrow> response \<times> ChaincodeStub" where
  "get_vehicles stub caller caller_affiliation =
     (case GetState stub ''v5cIDs'' of
        (bytes, True) \<Rightarrow> (Inl (Err (str ''Unable to get v5cIDs'')), stub)
      | (bytes, False) \<Rightarrow>
          (case Unmarshal_Holder bytes of
             None \<Rightarrow> (Inl (Err (str ''Corrupt V5C_Holder'')), stub)
           | Some v5cIDs \<Rightarrow>
               (case get_vehicles_loop stub caller caller_affiliation (ProductIds v5cIDs)
                       (str ''['') of
                  Inl err \<Rightarrow> (Inl err, stub)
                | Inr result \<Rightarrow>
                    if length result = 1 then (Inr (Some (str ''[]'')), stub)
                    else (Inr (Some (butlast result @ str '']'')), stub))))"

text \<open>The message of an error, \<^verbatim>\<open>err.Error()\<close>.\<close>

fun Error_text :: "error \<Rightarrow> bytes" where
  "Error_text (Err m) = m"
| "Error_text (Panic p) = str p"

text \<open>
  Where a caller replaces an error by a message of its own, a panic is not an error
  value and passes through unchanged.
\<close>

definition Query ::
  "World \<Rightarrow> ChaincodeStub \<Rightarrow> string \<Rightarrow> string list \<Rightarrow> response \<times> ChaincodeStub" where
  "Query W stub function args =
     (case get_caller_data W stub of
        Inl (Panic p) \<Rightarrow> (Inl (Panic p), stub)
      | Inl (Err m) \<Rightarrow> (Inl (Err (str ''QUERY: Error retrieving caller details'')), stub)
      | Inr (caller, caller_affiliation) \<Rightarrow>
          if function = ''get_vehicle_details'' then
            (if length args \<noteq> 1
             then (Inl (Err (str ''QUERY: Incorrect number of arguments passed'')), stub)
             else (case retrieve_product stub (args ! 0) of
                     Inl err \<Rightarrow>
                       (Inl (Err (str ''QUERY: Error retrieving v5c '' @ Error_text err)), stub)
                   | Inr v \<Rightarrow> get_vehicle_details stub v caller caller_affiliation))
          else if function = ''get_vehicles'' then get_vehicles stub caller caller_affiliation
          else (Inl (Err (str ''Received unknown function invocation'')), stub))"

subsection \<open>createRandomId, isRandomIdUnused, getAllUsedProductIds\<close>

text \<open>
  The loop of \<^verbatim>\<open>getAllUsedProductIds\<close> over the identifiers of the holder, with the index
  \<^verbatim>\<open>i\<close> and the slice \<^verbatim>\<open>usedIds\<close>. A write at an index outside the slice panics. The
  test \<^verbatim>\<open>product != nil || product != "[]"\<close> holds of every value and is left out; the
  \<^verbatim>\<open>Product_Id\<close>, a string, is stored in a slice of \<^verbatim>\<open>int\<close>.
\<close>

fun used_loop :: "ChaincodeStub \<Rightarrow> nat \<Rightarrow> int list \<Rightarrow> int list \<Rightarrow> error + int list" where
  "used_loop stub i [] usedIds = Inr usedIds"
| "used_loop stub i (pid # pids) usedIds =
     (case retrieve_product stub (Itoa pid) of
        Inl err \<Rightarrow> Inl (Err (str ''Failed to retrieve pid''))
      | Inr product \<Rightarrow>
          if i < length usedIds
          then used_loop stub (Suc i) pids (usedIds[i := fst (Atoi (Product_Id product))])
          else Inl (Panic ''index out of range''))"

definition getAllUsedProductIds :: "ChaincodeStub \<Rightarrow> error + int list" where
  "getAllUsedProductIds stub =
     (let usedIds = replicate 500 0
      in case GetState stub ''productId'' of
           (bytes, True) \<Rightarrow> Inl (Err (str ''Unable to get productIds''))
         | (bytes, False) \<Rightarrow>
             (case Unmarshal_Holder bytes of
                None \<Rightarrow> Inl (Err (str ''Invalid JSON''))
              | Some productIds \<Rightarrow> used_loop stub 0 (ProductIds productIds) usedIds))"

text \<open>
  \<^verbatim>\<open>isRandomIdUnused\<close> takes the slice that \<^verbatim>\<open>getAllUsedProductIds\<close> returns; where that
  function returns \<^verbatim>\<open>nil\<close> with an error the slice is \<^verbatim>\<open>nil\<close> and the loop over it is
  empty. The result is an error only for a panic.
\<close>

fun no_id_equals :: "int list \<Rightarrow> int \<Rightarrow> bool" where
  "no_id_equals [] randomId = True"
| "no_id_equals (i # ids) randomId = (if i = randomId then False else no_id_equals ids randomId)"

definition isRandomIdUnused :: "ChaincodeStub \<Rightarrow> int \<Rightarrow> error + bool" where
  "isRandomIdUnused stub randomId =
     (case getAllUsedProductIds stub of
        Inl (Panic p) \<Rightarrow> Inl (Panic p)
      | Inl (Err m) \<Rightarrow> Inr (no_id_equals [] randomId)
      | Inr usedIds \<Rightarrow> Inr (no_id_equals usedIds randomId))"

text \<open>
  \<^verbatim>\<open>createRandomId\<close>: the values that \<^verbatim>\<open>rand.Intn\<close> will return are given by a list of
  raw values, each reduced to the range asked for. The loop has no bound; the model
  returns \<open>None\<close> when the list ends before the loop does.
\<close>

definition Intn :: "int \<Rightarrow> nat \<Rightarrow> int" where
  "Intn n raw = int raw mod n"

fun createRandomId :: "ChaincodeStub \<Rightarrow> nat list \<Rightarrow> (error + int) option" where
  "createRandomId stub [] = None"
| "createRandomId stub (raw # raws) =
     (let low = 100000000; high = 999999999;
          randomId = Intn (high - low) raw + low
      in case isRandomIdUnused stub randomId of
           Inl err \<Rightarrow> Some (Inl err)
         | Inr True \<Rightarrow> Some (Inr randomId)
         | Inr False \<Rightarrow> createRandomId stub raws)"

subsection \<open>Create function\<close>

text \<open>
  The text \<^verbatim>\<open>product_json\<close> that \<^verbatim>\<open>create_product\<close> concatenates, variable by variable.
  The identifier and the contract are numbers joined to strings; their text is the
  decimal one. Whatever the parameters are, the text gives the members \<^verbatim>\<open>width\<close>,
  \<^verbatim>\<open>height\<close> and \<^verbatim>\<open>weight\<close> the string \<^verbatim>\<open>"UNDEFINED"\<close> and the members \<^verbatim>\<open>price\<close> and
  \<^verbatim>\<open>sales_contract\<close> a quoted string, for fields of the types \<^verbatim>\<open>float32\<close> and \<^verbatim>\<open>byte\<close>:
  \<^verbatim>\<open>json.Unmarshal\<close> reports an error for it on every call, be it for the type of these
  members or, where a parameter breaks the syntax of the text, for the syntax. In the model the text is
  made of characters, and \<open>Unmarshal_Product\<close> reports the error.
\<close>

definition product_json ::
  "World \<Rightarrow> int \<Rightarrow> string \<Rightarrow> string \<Rightarrow> real \<Rightarrow> string \<Rightarrow> 8 word \<Rightarrow> string" where
  "product_json W productId caller1 product_destination product_price product_currency contract =
     (let q = [CHR 0x22];
          pid = q @ ''productId'' @ q @ '':'' @ q @ Itoa productId @ q @ '', '';
          checkId = q @ ''checksum'' @ q @ '':'' @ q @ ''UNDEFINED'' @ q @ '', '';
          manufacturer = q @ ''manufacturer'' @ q @ '':'' @ q @ caller1 @ q @ '', '';
          owner = q @ ''owner'' @ q @ '':'' @ q @ caller1 @ q @ '', '';
          origin = q @ ''origin'' @ q @ '':'' @ q @ ''UNDEFINED'' @ q @ '', '';
          current_location = q @ ''current_location'' @ q @ '':'' @ q @ ''UNDEFINED'' @ q @ '', '';
          destination = q @ ''destination'' @ q @ '':'' @ q @ product_destination @ q @ '', '';
          route = q @ ''route'' @ q @ '':'' @ q @ ''UNDEFINED'' @ q @ '', '';
          state = q @ ''state'' @ q @ '':0, '';
          price = q @ ''price'' @ q @ '':'' @ q @ FormatFloat W product_price @ q @ '','';
          currency = q @ ''currency'' @ q @ '':'' @ q @ product_currency @ q @ '','';
          width = q @ ''width'' @ q @ '':'' @ q @ ''UNDEFINED'' @ q @ '','';
          height = q @ ''height'' @ q @ '':'' @ q @ ''UNDEFINED'' @ q @ '','';
          weight = q @ ''weight'' @ q @ '':'' @ q @ ''UNDEFINED'' @ q @ '','';
          sales_contract = q @ ''sales_contract'' @ q @ '':'' @ q @ Itoa (uint contract) @ q
      in ''{'' @ pid @ checkId @ manufacturer @ owner @ origin @ current_location @
         destination @ route @ state @ price @ currency @ width @ height @ weight @
         sales_contract @ ''}'')"

text \<open>
  \<^verbatim>\<open>create_product\<close>. The last parameter is the \<^verbatim>\<open>caller_affiliation\<close> that the body
  reads and the signature does not declare. \<^verbatim>\<open>json.Marshal\<close> of the holder is followed
  by a print only, so the put goes on with the bytes as they are.
\<close>

definition create_product ::
  "World \<Rightarrow> ChaincodeStub \<Rightarrow> nat list \<Rightarrow> string \<Rightarrow> string \<Rightarrow> int \<Rightarrow> int \<Rightarrow> string \<Rightarrow> real \<Rightarrow>
   string \<Rightarrow> 8 word \<Rightarrow> int \<Rightarrow> (response \<times> ChaincodeStub) option" where
  "create_product W stub raws caller1 caller2 caller1_affiliation caller2_affiliation
     product_destination product_price product_currency contract caller_affiliation =
     (case createRandomId stub raws of
        None \<Rightarrow> None
      | Some (Inl err) \<Rightarrow> Some (Inl err, stub)
      | Some (Inr productId) \<Rightarrow>
          Some
           (if caller1_affiliation = 2 \<and> caller2_affiliation = 3 then
              (case Unmarshal_Product
                      (Some (str (product_json W productId caller1 product_destination
                                    product_price product_currency contract))) of
                 None \<Rightarrow> (Inl (Err (str ''Invalid JSON object'')), stub)
               | Some product \<Rightarrow>
                   (case GetState stub (V5cID product) of
                      (record, err) \<Rightarrow>
                        if record \<noteq> None then (Inl (Err (str ''Vehicle already exists'')), stub)
                        else if caller_affiliation \<noteq> GOVERNMENT
                        then (Inl (Err (str ''Permission Denied'')), stub)
                        else
                          (case save_changes stub product of
                             (Inl err, stub1) \<Rightarrow> (Inl (Err (str ''Error saving changes'')), stub1)
                           | (Inr ok, stub1) \<Rightarrow>
                               (case GetState stub1 ''v5cIDs'' of
                                  (bytes, True) \<Rightarrow>
                                    (Inl (Err (str ''Unable to get v5cIDs'')), stub1)
                                | (bytes, False) \<Rightarrow>
                                    (case Unmarshal_Holder bytes of
                                       None \<Rightarrow>
                                         (Inl (Err (str ''Corrupt V5C_Holder record'')), stub1)
                                     | Some v5cIDs \<Rightarrow>
                                         (case PutState stub1 ''v5cIDs''
                                                 (string_of (Marshal_Holder
                                                    (v5cIDs\<lparr>ProductIds :=
                                                       ProductIds v5cIDs @ [productId]\<rparr>))) of
                                            (True, stub2) \<Rightarrow>
                                              (Inl (Err (str ''Unable to put the state'')), stub2)
                                          | (False, stub2) \<Rightarrow> (Inr None, stub2)))))))
            else (Inr None, stub)))"

subsection \<open>Router functions\<close>

text \<open>
  The eight values that \<^verbatim>\<open>Invoke\<close> binds from \<^verbatim>\<open>get_caller_data\<close>, and the
  \<^verbatim>\<open>caller_affiliation\<close> read by \<^verbatim>\<open>create_product\<close>.
\<close>

record caller_data =
  the_caller1 :: string
  the_caller2 :: string
  the_caller1_affiliation :: int
  the_caller2_affiliation :: int
  the_destination :: string
  the_price :: real
  the_currency :: string
  the_contract :: "8 word"
  the_caller_affiliation :: int

text \<open>
  \<^verbatim>\<open>Invoke\<close>. After the asset is loaded and, for a transfer, the affiliation of the
  recipient is resolved, no handler is called: the calls are in a comment, and the
  function ends with the error for an unknown name. \<^verbatim>\<open>args[0]\<close> and \<^verbatim>\<open>args[argPos]\<close> are
  read without a test of the length.
\<close>

definition Invoke ::
  "World \<Rightarrow> ChaincodeStub \<Rightarrow> nat list \<Rightarrow> caller_data \<Rightarrow> string \<Rightarrow> string list \<Rightarrow>
   (response \<times> ChaincodeStub) option" where
  "Invoke W stub raws cd function args =
     (case get_caller_data W stub of
        Inl (Panic p) \<Rightarrow> Some (Inl (Panic p), stub)
      | Inl (Err m) \<Rightarrow> Some (Inl (Err (str ''Error retrieving caller information'')), stub)
      | Inr data \<Rightarrow>
          if function = ''create_product'' then
            (if length args \<le> 0 then Some (Inl (Panic ''index out of range''), stub)
             else create_product W stub raws (the_caller1 cd) (the_caller2 cd)
                    (the_caller1_affiliation cd) (the_caller2_affiliation cd)
                    (the_destination cd) (the_price cd) (the_currency cd) (the_contract cd)
                    (the_caller_affiliation cd))
          else
            (let argPos = (if function = ''scrap_vehicle'' then 0 else 1)
             in if length args \<le> argPos then Some (Inl (Panic ''index out of range''), stub)
                else
                  (case retrieve_product stub (args ! argPos) of
                     Inl err \<Rightarrow> Some (Inl (Err (str ''Error retrieving v5c'')), stub)
                   | Inr product \<Rightarrow>
                       if Contains function ''update'' = False \<and> function \<noteq> ''scrap_vehicle''
                       then
                         (case get_ecert W stub (args ! 0) of
                            Inl err \<Rightarrow> Some (Inl err, stub)
                          | Inr ecert \<Rightarrow>
                              (case check_affiliation W ecert of
                                 Inl err \<Rightarrow> Some (Inl err, stub)
                               | Inr rec_affiliation \<Rightarrow>
                                   Some (Inl (Err (str ''Function of that name doesn't exist.'')),
                                         stub)))
                       else Some (Inl (Err (str ''Function of that name doesn't exist.'')), stub))))"

subsection \<open>Init\<close>

text \<open>
  \<^verbatim>\<open>Init\<close> puts an empty holder under \<^verbatim>\<open>"pids"\<close>; the error of that put is overwritten
  by the error of the next.
\<close>

definition Init ::
  "ChaincodeStub \<Rightarrow> string \<Rightarrow> string list \<Rightarrow> response \<times> ChaincodeStub" where
  "Init stub function args =
     (case Marshal_Holder \<lparr>ProductIds = []\<rparr> of
        None \<Rightarrow> (Inl (Err (str ''Error creating Product_Id_Holder record'')), stub)
      | Some bytes \<Rightarrow>
          (case PutState stub ''pids'' bytes of
             (err, stub1) \<Rightarrow>
               if length args \<le> 0 then (Inl (Panic ''index out of range''), stub1)
               else
                 (case PutState stub1 ''Peer_Address'' (str (args ! 0)) of
                    (True, stub2) \<Rightarrow> (Inl (Err (str ''Error storing peer address'')), stub2)
                  | (False, stub2) \<Rightarrow> (Inr None, stub2))))"

subsection \<open>The error of a refused guard\<close>

text \<open>
  The handlers spell the message of a refused guard in two ways; both are the
  permission error.
\<close>

definition PermissionDenied :: "error \<Rightarrow> bool" where
  "PermissionDenied e \<longleftrightarrow>
     e = Err (str ''Permission Denied'') \<or> e = Err (str ''Permission denied'')"

subsection \<open>Example values\<close>

text \<open>
  A vehicle in the state SALES_CONTRACT, owned by DVLA, none of its parts defined yet.
\<close>

definition example_vehicle :: Product where
  "example_vehicle =
     \<lparr>Product_Id = ''123456789'', CheckId = ''UNDEFINED'', Manufacturer = ''DVLA'',
      Owner = ''DVLA'', Origin = ''UNDEFINED'', Current_location = ''UNDEFINED'',
      Destination = ''Derby'', Route = ''UNDEFINED'', State = 0,
      Price = 100, Currency = ''EUR'', Width = 0, Height = 0, Weight = 0,
      Sales_contract = 1, Status = 0, Scrapped = False, Make = [], Name = [],
      Reg = [], Colour = [], VIN = 0, V5cID = []\<rparr>"

definition example_stub :: ChaincodeStub where
  "example_stub =
     \<lparr>ledger = [''Peer_Address'' \<mapsto> str ''peer'',
                ''pids'' \<mapsto> [HolderJSON \<lparr>ProductIds = []\<rparr>],
                ''v5cIDs'' \<mapsto> [HolderJSON \<lparr>ProductIds = [123456789]\<rparr>],
                ''123456789'' \<mapsto> [ProductJSON example_vehicle]],
      get_fails = (\<lambda>key. False), put_fails = (\<lambda>key. False), put_log = [],
      caller_certificate = Some ''caller DVLA''\<rparr>"

text \<open>
  An outside world with three principals. The certificate of the caller names DVLA; the
  registrar knows DVLA (affiliation 1), Toyota (affiliation 2) and Mallory, whose common
  name carries the third field \<open>abc\<close>.
\<close>

definition example_world :: World where
  "example_world =
     \<lparr>ParseCertificate = (\<lambda>b.
        if b = ''caller DVLA'' then Some ''DVLA''
        else if b = ''der DVLA'' then Some (''DVLA'' @ [CHR 0x5C] @ ''group1'' @ [CHR 0x5C] @ ''1'')
        else if b = ''der Toyota'' then Some (''Toyota'' @ [CHR 0x5C] @ ''group1'' @ [CHR 0x5C] @ ''2'')
        else if b = ''der Mallory'' then Some (''Mallory'' @ [CHR 0x5C] @ ''group1'' @ [CHR 0x5C] @ ''abc'')
        else None),
      QueryUnescape = (\<lambda>s. Some s),
      Decode = (\<lambda>s.
        if s = ''pem DVLA'' then Some ''der DVLA''
        else if s = ''pem Toyota'' then Some ''der Toyota''
        else if s = ''pem Mallory'' then Some ''der Mallory''
        else None),
      Get = (\<lambda>url.
        if url = str ''http://peer/registrar/DVLA/ecert'' then Body ''reply DVLA''
        else if url = str ''http://peer/registrar/Toyota/ecert'' then Body ''reply Toyota''
        else if url = str ''http://peer/registrar/Mallory/ecert'' then Body ''reply Mallory''
        else Get_failed),
      Unmarshal_ECertResponse = (\<lambda>contents.
        if contents = ''reply DVLA'' then Some \<lparr>OK = ''pem DVLA'', Error = []\<rparr>
        else if contents = ''reply Toyota'' then Some \<lparr>OK = ''pem Toyota'', Error = []\<rparr>
        else if contents = ''reply Mallory'' then Some \<lparr>OK = ''pem Mallory'', Error = []\<rparr>
        else None),
      FormatFloat = (\<lambda>x. if x = 100 then ''100'' else ''0'')\<rparr>"

text \<open>The values \<^verbatim>\<open>Invoke\<close> hands to \<^verbatim>\<open>create_product\<close> in the examples.\<close>

definition example_caller_data :: caller_data where
  "example_caller_data =
     \<lparr>the_caller1 = ''Toyota'', the_caller2 = ''Alice'', the_caller1_affiliation = MANUFACTURER,
      the_caller2_affiliation = BUYER, the_destination = ''Derby'', the_price = 100,
      the_currency = ''EUR'', the_contract = 1, the_caller_affiliation = GOVERNMENT\<rparr>"


subsection \<open>The asset after a transition\<close>


subsection \<open>The text of a list\<close>

text \<open>
  The texts \<open>ds\<close> separated by commas: what stands between the brackets of the text
  that \<^verbatim>\<open>get_vehicles\<close> is to return for the assets with the texts \<open>ds\<close>.
\<close>

fun join_with_commas :: "bytes list \<Rightarrow> bytes" where
  "join_with_commas [] = []"
| "join_with_commas [d] = d"
| "join_with_commas (d # e # ds) = d @ str '','' @ join_with_commas (e # ds)"

section \<open>Properties\<close>

subsection \<open>Auxiliary facts\<close>

lemmas participant_defs =
  GOVERNMENT_def MANUFACTURER_def BUYER_def MANUFACTURER_BANK_def BUYER_BANK_def
  SHIPPER_def PRODUCT_def

lemmas status_defs =
  STATE_SALESCONTRACT_def STATE_ACCREDITIVE_def STATE_CHECK_ACCREDITIVE_def
  STATE_MANUFACTURE_def STATE_SHIPPING_def STATE_PAYMENT_def STATE_INUSE_def
  STATE_SCRAPPED_def

lemmas handler_defs =
  manufacturer_to_buyer_def manufacturer_to_bank_def buyer_to_buyer_def
  private_to_lease_company_def lease_company_to_private_def private_to_scrap_merchant_def
  update_registration_def update_colour_def update_make_def update_model_def
  scrap_vehicle_def

lemma save_changes_eq:
  "save_changes stub p =
     (if put_fails stub (Product_Id p) then (Inl (Err (str ''Error storing vehicle record'')), stub)
      else (Inr True, stub\<lparr>ledger := (ledger stub)(Product_Id p \<mapsto> [ProductJSON p]),
                             put_log := put_log stub @ [(Product_Id p, [ProductJSON p])]\<rparr>))"
  by (simp add: save_changes_def Marshal_Product_def PutState_def)

lemma handler_shape:
  assumes eq: "(if G then (case save_changes stub w of
                             (Inl err, s) \<Rightarrow> (Inl (Err m), s)
                           | (Inr ok, s) \<Rightarrow> (Inr None, s))
                else (Inl e0, stub)) = (r, stub')"
    and g: "G \<Longrightarrow> Product_Id w = Product_Id v \<and> State w = State v \<and> Status v \<le> Status w \<and>
                 \<not> Scrapped v \<and> Owner v = caller"
  shows "(\<exists>e. r = Inl e \<and> stub' = stub) \<or>
         (r = Inr None \<and> \<not> put_fails stub (Product_Id v) \<and> \<not> Scrapped v \<and> Owner v = caller \<and>
          (\<exists>v'. Product_Id v' = Product_Id v \<and> State v' = State v \<and> Status v \<le> Status v' \<and>
                stub' = stub\<lparr>ledger := (ledger stub)(Product_Id v \<mapsto> [ProductJSON v']),
                             put_log := put_log stub @ [(Product_Id v, [ProductJSON v'])]\<rparr>))"
proof (cases "G \<and> \<not> put_fails stub (Product_Id v)")
  case True
  with g have w: "Product_Id w = Product_Id v" "State w = State v" "Status v \<le> Status w"
    "\<not> Scrapped v" "Owner v = caller" by simp_all
  from True eq w have "r = Inr None"
    "stub' = stub\<lparr>ledger := (ledger stub)(Product_Id v \<mapsto> [ProductJSON w]),
                   put_log := put_log stub @ [(Product_Id v, [ProductJSON w])]\<rparr>"
    by (simp_all add: save_changes_eq)
  with True w show ?thesis by blast
next
  case False
  with eq g have "\<exists>e. r = Inl e \<and> stub' = stub"
    by (cases G) (auto simp: save_changes_eq)
  then show ?thesis by blast
qed

lemma perform_cases:
  assumes "perform stub v h caller ca arg ra = (r, stub')"
  shows "(\<exists>e. r = Inl e \<and> stub' = stub) \<or>
         (r = Inr None \<and> \<not> put_fails stub (Product_Id v) \<and> \<not> Scrapped v \<and> Owner v = caller \<and>
          (\<exists>v'. Product_Id v' = Product_Id v \<and> State v' = State v \<and> Status v \<le> Status v' \<and>
                stub' = stub\<lparr>ledger := (ledger stub)(Product_Id v \<mapsto> [ProductJSON v']),
                             put_log := put_log stub @ [(Product_Id v, [ProductJSON v'])]\<rparr>))"
proof (cases h)
  case H_manufacturer_to_buyer
  from assms [unfolded H_manufacturer_to_buyer perform.simps manufacturer_to_buyer_def] show ?thesis
    by (rule handler_shape) (simp add: status_defs)
next
  case H_manufacturer_to_bank
  show ?thesis
  proof (cases "Make v = ''UNDEFINED'' \<or> Name v = ''UNDEFINED'' \<or> Reg v = ''UNDEFINED'' \<or>
                Colour v = ''UNDEFINED'' \<or> VIN v = 0")
    case True
    with assms H_manufacturer_to_bank show ?thesis
      by (auto simp: manufacturer_to_bank_def)
  next
    case False
    from assms [unfolded H_manufacturer_to_bank perform.simps manufacturer_to_bank_def] False
    have "(if Status v = STATE_ACCREDITIVE \<and> Owner v = caller \<and> ca = MANUFACTURER \<and>
              ra = BUYER \<and> Scrapped v = False
           then (case save_changes stub (v\<lparr>Owner := arg, Status := STATE_CHECK_ACCREDITIVE\<rparr>) of
                   (Inl err, s) \<Rightarrow> (Inl (Err (str ''Error saving changes'')), s)
                 | (Inr ok, s) \<Rightarrow> (Inr None, s))
           else (Inl (Err (str ''Permission denied'')), stub)) = (r, stub')"
      by simp
    then show ?thesis
      by (rule handler_shape) (simp add: status_defs)
  qed
next
  case H_buyer_to_buyer
  from assms [unfolded H_buyer_to_buyer perform.simps buyer_to_buyer_def] show ?thesis
    by (rule handler_shape) (simp add: status_defs)
next
  case H_private_to_lease_company
  from assms [unfolded H_private_to_lease_company perform.simps private_to_lease_company_def] show ?thesis
    by (rule handler_shape) (simp add: status_defs)
next
  case H_lease_company_to_private
  from assms [unfolded H_lease_company_to_private perform.simps lease_company_to_private_def] show ?thesis
    by (rule handler_shape) (simp add: status_defs)
next
  case H_private_to_scrap_merchant
  from assms [unfolded H_private_to_scrap_merchant perform.simps private_to_scrap_merchant_def] show ?thesis
    by (rule handler_shape) (simp add: status_defs)
next
  case H_update_registration
  from assms [unfolded H_update_registration perform.simps update_registration_def] show ?thesis
    by (rule handler_shape) (simp add: status_defs)
next
  case H_update_colour
  from assms [unfolded H_update_colour perform.simps update_colour_def] show ?thesis
    by (rule handler_shape) (simp add: status_defs)
next
  case H_update_make
  from assms [unfolded H_update_make perform.simps update_make_def] show ?thesis
    by (rule handler_shape) (simp add: status_defs)
next
  case H_update_model
  from assms [unfolded H_update_model perform.simps update_model_def] show ?thesis
    by (rule handler_shape) (simp add: status_defs)
next
  case H_scrap_vehicle
  from assms [unfolded H_scrap_vehicle perform.simps scrap_vehicle_def] show ?thesis
    by (rule handler_shape) (simp add: status_defs)
qed

lemma digits_small: "n < 10 \<Longrightarrow> digits n = [''0123456789'' ! n]"
  by (simp add: digits.simps)

lemma digits_big: "\<not> n < 10 \<Longrightarrow> digits n = digits (n div 10) @ [''0123456789'' ! (n mod 10)]"
  by (subst digits.simps) simp

lemma Itoa_example: "Itoa 123456789 = ''123456789''"
  by (simp add: Itoa_def digits_small digits_big)

lemma example_vehicle_id: "Product_Id example_vehicle = ''123456789''"
  by (simp add: example_vehicle_def)

lemma perform_scrapped:
  assumes "Scrapped v"
  shows "perform stub v h caller ca arg ra =
     (Inl (if h = H_manufacturer_to_bank \<and>
              (Make v = ''UNDEFINED'' \<or> Name v = ''UNDEFINED'' \<or> Reg v = ''UNDEFINED'' \<or>
               Colour v = ''UNDEFINED'' \<or> VIN v = 0)
           then Err (str ''Car not fully defined'')
           else if h = H_manufacturer_to_buyer then Err (str ''Permission Denied'')
           else Err (str ''Permission denied'')), stub)"
  using assms by (cases h) (simp_all add: handler_defs)

subsection \<open>Scrapped assets\<close>

text \<open>
  C3 (as amended). On an asset with \<^verbatim>\<open>Scrapped\<close> set, every handler (the six transfers, the
  four updates and \<^verbatim>\<open>scrap_vehicle\<close>) returns an error and leaves the stub, and so the
  stored asset, as it was. The error is the permission error, except that
  \<^verbatim>\<open>manufacturer_to_bank\<close> on a product with an undefined part returns
  "Car not fully defined". A successful \<^verbatim>\<open>scrap_vehicle\<close> stores the asset with
  \<^verbatim>\<open>Scrapped\<close> set, so every handler called on the stored asset afterwards fails in
  this way.
\<close>

theorem scrapped_asset_refuses_every_handler:
  "(Scrapped v \<longrightarrow>
      (\<exists>e. perform stub v h caller ca arg ra = (Inl e, stub) \<and>
           (PermissionDenied e \<or>
            h = H_manufacturer_to_bank \<and>
            (Make v = ''UNDEFINED'' \<or> Name v = ''UNDEFINED'' \<or> Reg v = ''UNDEFINED'' \<or>
             Colour v = ''UNDEFINED'' \<or> VIN v = 0) \<and>
            e = Err (str ''Car not fully defined'')))) \<and>
   (scrap_vehicle stub v caller ca = (Inr ok, s) \<longrightarrow>
      ledger s (Product_Id v) = Some [ProductJSON (v\<lparr>Scrapped := True\<rparr>)] \<and>
      (\<exists>e. perform s (v\<lparr>Scrapped := True\<rparr>) h caller' ca' arg ra = (Inl e, s) \<and>
           (PermissionDenied e \<or>
            h = H_manufacturer_to_bank \<and>
            (Make v = ''UNDEFINED'' \<or> Name v = ''UNDEFINED'' \<or> Reg v = ''UNDEFINED'' \<or>
             Colour v = ''UNDEFINED'' \<or> VIN v = 0) \<and>
            e = Err (str ''Car not fully defined''))))"
proof -
  have refused: "\<exists>e. perform t w h c a arg ra = (Inl e, t) \<and>
           (PermissionDenied e \<or>
            h = H_manufacturer_to_bank \<and>
            (Make w = ''UNDEFINED'' \<or> Name w = ''UNDEFINED'' \<or> Reg w = ''UNDEFINED'' \<or>
             Colour w = ''UNDEFINED'' \<or> VIN w = 0) \<and>
            e = Err (str ''Car not fully defined''))"
    if "Scrapped w" for t w c a
    using perform_scrapped [OF that, of t h c a arg ra]
    by (auto simp: PermissionDenied_def)
  have stored: "ledger s (Product_Id v) = Some [ProductJSON (v\<lparr>Scrapped := True\<rparr>)]"
    if "scrap_vehicle stub v caller ca = (Inr ok, s)"
    using that by (auto simp: scrap_vehicle_def save_changes_eq split: if_splits)
  from refused [of "v\<lparr>Scrapped := True\<rparr>" s caller' ca'] refused [of v stub caller ca] stored
  show ?thesis by simp
qed

text \<open>
  C3 as stated fails: \<^verbatim>\<open>manufacturer_to_bank\<close> on a scrapped product whose parts are
  undefined returns an error that is not the permission error.
\<close>

theorem scrapped_asset_counterexample:
  "Scrapped (example_vehicle\<lparr>Scrapped := True\<rparr>) \<and>
   perform example_stub (example_vehicle\<lparr>Scrapped := True\<rparr>) H_manufacturer_to_bank
     ''DVLA'' MANUFACTURER ''Alice'' BUYER = (Inl (Err (str ''Car not fully defined'')), example_stub) \<and>
   \<not> PermissionDenied (Err (str ''Car not fully defined''))"
  by (simp add: manufacturer_to_bank_def example_vehicle_def PermissionDenied_def str_def)

text \<open>
  A scrapped vehicle refuses \<^verbatim>\<open>scrap_vehicle\<close>; and after the scrap merchant has scrapped
  the vehicle it holds, its update of the registration is refused.
\<close>

theorem scrapped_asset_witness:
  "Scrapped (example_vehicle\<lparr>Scrapped := True\<rparr>) \<and>
   (\<exists>e. perform example_stub (example_vehicle\<lparr>Scrapped := True\<rparr>) H_scrap_vehicle
          ''DVLA'' BUYER_BANK [] 0 = (Inl e, example_stub) \<and> PermissionDenied e) \<and>
   scrap_vehicle example_stub (example_vehicle\<lparr>Owner := ''Scrappy'', Status := STATE_SHIPPING\<rparr>)
     ''Scrappy'' BUYER_BANK =
     (Inr None, snd (scrap_vehicle example_stub
        (example_vehicle\<lparr>Owner := ''Scrappy'', Status := STATE_SHIPPING\<rparr>) ''Scrappy'' BUYER_BANK)) \<and>
   (\<exists>e. perform (snd (scrap_vehicle example_stub
            (example_vehicle\<lparr>Owner := ''Scrappy'', Status := STATE_SHIPPING\<rparr>) ''Scrappy'' BUYER_BANK))
          (example_vehicle\<lparr>Owner := ''Scrappy'', Status := STATE_SHIPPING, Scrapped := True\<rparr>)
          H_update_registration ''Scrappy'' BUYER ''AB12'' 0 =
          (Inl e, snd (scrap_vehicle example_stub
            (example_vehicle\<lparr>Owner := ''Scrappy'', Status := STATE_SHIPPING\<rparr>) ''Scrappy'' BUYER_BANK)) \<and>
        PermissionDenied e)"
proof -
  have h: "Scrapped (example_vehicle\<lparr>Scrapped := True\<rparr>)" by simp
  have pf: "put_fails example_stub = (\<lambda>key. False)"
    by (simp add: example_stub_def)
  have fields: "Scrapped example_vehicle = False"
    by (simp add: example_vehicle_def)
  have sc: "scrap_vehicle example_stub
      (example_vehicle\<lparr>Owner := ''Scrappy'', Status := STATE_SHIPPING\<rparr>) ''Scrappy'' BUYER_BANK =
     (Inr None, snd (scrap_vehicle example_stub
        (example_vehicle\<lparr>Owner := ''Scrappy'', Status := STATE_SHIPPING\<rparr>) ''Scrappy'' BUYER_BANK))"
    by (simp add: scrap_vehicle_def save_changes_eq pf fields)
  show ?thesis
    using h sc
      scrapped_asset_refuses_every_handler [where v = "example_vehicle\<lparr>Scrapped := True\<rparr>"
        and stub = example_stub and h = H_scrap_vehicle and caller = "''DVLA''"
        and ca = BUYER_BANK and arg = "[]" and ra = 0]
      scrapped_asset_refuses_every_handler [where
        v = "example_vehicle\<lparr>Owner := ''Scrappy'', Status := STATE_SHIPPING\<rparr>"
        and stub = example_stub and caller = "''Scrappy''" and ca = BUYER_BANK and ok = None
        and s = "snd (scrap_vehicle example_stub
           (example_vehicle\<lparr>Owner := ''Scrappy'', Status := STATE_SHIPPING\<rparr>) ''Scrappy'' BUYER_BANK)"
        and h = H_update_registration and caller' = "''Scrappy''" and ca' = BUYER
        and arg = "''AB12''" and ra = 0]
    by simp
qed

subsection \<open>Transitions and reads\<close>

lemma Unmarshal_Product_Some:
  "Unmarshal_Product b = Some v \<longleftrightarrow> (\<exists>as_holder. b = Some [JSON (Some v) as_holder])"
  by (cases b rule: Unmarshal_Product.cases) auto

lemma retrieve_product_Inr:
  "retrieve_product stub pid = Inr v \<longleftrightarrow>
     \<not> get_fails stub pid \<and> (\<exists>as_holder. ledger stub pid = Some [JSON (Some v) as_holder])"
  by (simp add: retrieve_product_def GetState_def Unmarshal_Product_Some [symmetric]
      split: option.splits)

lemma retrieve_product_stored:
  "\<not> get_fails stub pid \<Longrightarrow> ledger stub pid = Some [ProductJSON v] \<Longrightarrow>
     retrieve_product stub pid = Inr v"
  by (simp add: retrieve_product_Inr)

lemma perform_success:
  assumes "perform stub v h caller ca arg ra = (Inr ok, s)"
  shows "\<exists>w. Product_Id w = Product_Id v \<and> State w = State v \<and> Status v \<le> Status w \<and>
             ledger s = (ledger stub)(Product_Id v \<mapsto> [ProductJSON w]) \<and>
             get_fails s = get_fails stub"
proof -
  from perform_cases [OF assms]
  obtain w where "Product_Id w = Product_Id v" "State w = State v" "Status v \<le> Status w"
    and s: "s = stub\<lparr>ledger := (ledger stub)(Product_Id v \<mapsto> [ProductJSON w]),
                    put_log := put_log stub @ [(Product_Id v, [ProductJSON w])]\<rparr>"
    by blast
  moreover from s have "ledger s = (ledger stub)(Product_Id v \<mapsto> [ProductJSON w])"
    "get_fails s = get_fails stub" by simp_all
  ultimately show ?thesis by blast
qed

lemma run_monotone:
  assumes "retrieve_product stub pid = Inr v" and "Product_Id v = pid"
    and "run stub pid calls = Some stub'"
  shows "\<exists>v'. retrieve_product stub' pid = Inr v' \<and> Product_Id v' = pid \<and>
              Status v \<le> Status v' \<and> State v \<le> State v'"
  using assms
proof (induction calls arbitrary: stub v)
  case Nil
  then show ?case by auto
next
  case (Cons c calls)
  obtain h caller ca arg ra where c: "c = (h, caller, ca, arg, ra)"
    by (cases c) auto
  obtain r s where p: "perform stub v h caller ca arg ra = (r, s)"
    by (cases "perform stub v h caller ca arg ra") auto
  from Cons.prems(3) have "run stub pid ((h, caller, ca, arg, ra) # calls) = Some stub'"
    by (simp only: c)
  with Cons.prems(1) p obtain ok where r: "r = Inr ok" and rest: "run s pid calls = Some stub'"
    by (cases r) simp_all
  from perform_success [OF p [unfolded r]] Cons.prems(2) obtain w where
    w: "Product_Id w = pid" "State w = State v" "Status v \<le> Status w"
    and s: "ledger s = (ledger stub)(pid \<mapsto> [ProductJSON w])" "get_fails s = get_fails stub"
    by blast
  from Cons.prems(1) s have "retrieve_product s pid = Inr w"
    by (simp add: retrieve_product_Inr)
  from Cons.IH [OF this w(1) rest] obtain v' where
    v': "retrieve_product stub' pid = Inr v'" "Product_Id v' = pid"
    "Status w \<le> Status v'" "State w \<le> State v'" by blast
  from v'(3) w(3) have "Status v \<le> Status v'" by simp
  moreover from v'(4) w(2) have "State v \<le> State v'" by simp
  ultimately show ?case using v'(1,2) by blast
qed


lemma example_retrieve: "retrieve_product example_stub ''123456789'' = Inr example_vehicle"
  by (simp add: retrieve_product_Inr example_stub_def)

lemma example_vehicle_fields:
  "Status example_vehicle = 0" "State example_vehicle = 0" "Owner example_vehicle = ''DVLA''"
  "Scrapped example_vehicle = False"
  by (simp_all add: example_vehicle_def)

text \<open>
  C4. Along every run of successful handler calls on an asset, stored under its own
  identifier, the lifecycle state of the stored asset never decreases in the order
  SALES_CONTRACT (0) < ACCREDITIVE (1) < CHECK_ACCREDITIVE (2) < MANUFACTURE (3) <
  SHIPPING (4) < PAYMENT (5) < IN_USE (6) < SCRAPPED (7): the asset read back after the
  run has a \<^verbatim>\<open>Status\<close>, the field the handlers test and set, and a \<^verbatim>\<open>State\<close>, the
  field the struct declares, at least those before the run.
\<close>

theorem state_never_decreases:
  assumes "retrieve_product stub pid = Inr v" and "Product_Id v = pid"
    and "run stub pid calls = Some stub'"
  shows "\<exists>v'. retrieve_product stub' pid = Inr v' \<and> Status v \<le> Status v' \<and> State v \<le> State v'"
  using run_monotone [OF assms] by blast

text \<open>
  A run of two calls: the creator hands the example vehicle to a manufacturer, who then
  sets its make.
\<close>

theorem state_never_decreases_witness:
  "retrieve_product example_stub ''123456789'' = Inr example_vehicle \<and>
   Product_Id example_vehicle = ''123456789'' \<and>
   run example_stub ''123456789''
     [(H_manufacturer_to_buyer, ''DVLA'', GOVERNMENT, ''Toyota'', MANUFACTURER),
      (H_update_make, ''Toyota'', MANUFACTURER, ''Aygo'', 0)] \<noteq> None \<and>
   (\<exists>v'. retrieve_product
           (the (run example_stub ''123456789''
              [(H_manufacturer_to_buyer, ''DVLA'', GOVERNMENT, ''Toyota'', MANUFACTURER),
               (H_update_make, ''Toyota'', MANUFACTURER, ''Aygo'', 0)])) ''123456789'' = Inr v' \<and>
         Status example_vehicle \<le> Status v' \<and> State example_vehicle \<le> State v')"
proof -
  let ?calls = "[(H_manufacturer_to_buyer, ''DVLA'', GOVERNMENT, ''Toyota'', MANUFACTURER),
                 (H_update_make, ''Toyota'', MANUFACTURER, ''Aygo'', 0)]"
  have pf: "put_fails example_stub = (\<lambda>key. False)" "get_fails example_stub = (\<lambda>key. False)"
    "ledger example_stub ''123456789'' = Some [ProductJSON example_vehicle]"
    by (simp_all add: example_stub_def)
  have "\<exists>S. run example_stub ''123456789'' ?calls = Some S"
    by (simp add: example_retrieve manufacturer_to_buyer_def update_make_def save_changes_eq
        example_vehicle_fields example_vehicle_id retrieve_product_def GetState_def pf
        status_defs)
  then obtain S where S: "run example_stub ''123456789'' ?calls = Some S" ..
  from state_never_decreases [OF example_retrieve example_vehicle_id S] S
  show ?thesis by (simp add: example_retrieve example_vehicle_id)
qed

text \<open>
  C8. When the asset is in state SALES_CONTRACT, is owned by the caller, the caller is
  GOVERNMENT, the recipient is MANUFACTURER and the asset is not scrapped,
  \<^verbatim>\<open>manufacturer_to_buyer\<close> sets the owner to the recipient and the state to ACCREDITIVE
  and puts the asset under its identifier (one put; where that put fails the result is
  "Error saving changes" and the stub is as before). When any of the five conditions
  fails, the result is the permission error and the stub is as before.
\<close>

theorem manufacturer_to_buyer_transfer:
  "(Status v = STATE_SALESCONTRACT \<and> Owner v = caller \<and> caller_affiliation = GOVERNMENT \<and>
    recipient_affiliation = MANUFACTURER \<and> Scrapped v = False \<longrightarrow>
      manufacturer_to_buyer stub v caller caller_affiliation recipient_name recipient_affiliation =
        (if put_fails stub (Product_Id v) then (Inl (Err (str ''Error saving changes'')), stub)
         else (Inr None,
               stub\<lparr>ledger := (ledger stub)(Product_Id v \<mapsto>
                        [ProductJSON (v\<lparr>Owner := recipient_name, Status := STATE_ACCREDITIVE\<rparr>)]),
                    put_log := put_log stub @
                      [(Product_Id v,
                        [ProductJSON (v\<lparr>Owner := recipient_name, Status := STATE_ACCREDITIVE\<rparr>)])]\<rparr>))) \<and>
   (\<not> (Status v = STATE_SALESCONTRACT \<and> Owner v = caller \<and> caller_affiliation = GOVERNMENT \<and>
       recipient_affiliation = MANUFACTURER \<and> Scrapped v = False) \<longrightarrow>
      manufacturer_to_buyer stub v caller caller_affiliation recipient_name recipient_affiliation =
        (Inl (Err (str ''Permission Denied'')), stub))"
  by (simp add: manufacturer_to_buyer_def save_changes_eq)



text \<open>
  Scenario B of the specification, and the same call by a caller who is not the owner.
\<close>

theorem manufacturer_to_buyer_transfer_witness:
  "Status example_vehicle = STATE_SALESCONTRACT \<and> Owner example_vehicle = ''DVLA'' \<and>
   Scrapped example_vehicle = False \<and> \<not> put_fails example_stub (Product_Id example_vehicle) \<and>
   manufacturer_to_buyer example_stub example_vehicle ''DVLA'' GOVERNMENT ''Toyota'' MANUFACTURER =
     (Inr None,
      example_stub\<lparr>ledger := (ledger example_stub)(''123456789'' \<mapsto>
                       [ProductJSON (example_vehicle\<lparr>Owner := ''Toyota'', Status := STATE_ACCREDITIVE\<rparr>)]),
                   put_log := [(''123456789'',
                       [ProductJSON (example_vehicle\<lparr>Owner := ''Toyota'', Status := STATE_ACCREDITIVE\<rparr>)])]\<rparr>) \<and>
   manufacturer_to_buyer example_stub example_vehicle ''Mallory'' GOVERNMENT ''Toyota'' MANUFACTURER =
     (Inl (Err (str ''Permission Denied'')), example_stub)"
proof -
  have pf: "put_fails example_stub = (\<lambda>key. False)" "put_log example_stub = []"
    by (simp_all add: example_stub_def)
  show ?thesis
    using manufacturer_to_buyer_transfer [of example_vehicle "''DVLA''" GOVERNMENT MANUFACTURER
        example_stub "''Toyota''"]
      manufacturer_to_buyer_transfer [of example_vehicle "''Mallory''" GOVERNMENT MANUFACTURER
        example_stub "''Toyota''"]
    by (simp add: example_vehicle_fields example_vehicle_id pf status_defs)
qed

text \<open>
  C9. \<^verbatim>\<open>get_vehicle_details\<close> returns the serialized asset if and only if the caller is
  the owner of the asset or has the affiliation GOVERNMENT; otherwise it returns the
  permission error; in both cases the stub is as before.
\<close>

theorem get_vehicle_details_owner_or_government:
  "((\<exists>bytes. fst (get_vehicle_details stub v caller caller_affiliation) = Inr bytes) \<longleftrightarrow>
      Owner v = caller \<or> caller_affiliation = GOVERNMENT) \<and>
   (Owner v = caller \<or> caller_affiliation = GOVERNMENT \<longrightarrow>
      fst (get_vehicle_details stub v caller caller_affiliation) = Inr (Marshal_Product v)) \<and>
   (\<not> (Owner v = caller \<or> caller_affiliation = GOVERNMENT) \<longrightarrow>
      fst (get_vehicle_details stub v caller caller_affiliation) =
        Inl (Err (str ''Permission Denied''))) \<and>
   snd (get_vehicle_details stub v caller caller_affiliation) = stub"
  by (simp add: get_vehicle_details_def Marshal_Product_def)


text \<open>Scenario E of the specification.\<close>

theorem get_vehicle_details_witness:
  "fst (get_vehicle_details example_stub example_vehicle ''DVLA'' GOVERNMENT) =
     Inr (Some [ProductJSON example_vehicle]) \<and>
   fst (get_vehicle_details example_stub example_vehicle ''Toyota'' MANUFACTURER) =
     Inl (Err (str ''Permission Denied'')) \<and>
   snd (get_vehicle_details example_stub example_vehicle ''Toyota'' MANUFACTURER) = example_stub"
  using get_vehicle_details_owner_or_government [of example_stub example_vehicle "''DVLA''" GOVERNMENT]
    get_vehicle_details_owner_or_government [of example_stub example_vehicle "''Toyota''" MANUFACTURER]
  by (simp add: example_vehicle_fields Marshal_Product_def participant_defs)

subsection \<open>Listing\<close>

lemma get_vehicles_loop_ok:
  assumes "\<forall>pid\<in>set ids. \<exists>v. retrieve_product stub (Itoa pid) = Inr v"
  shows "get_vehicles_loop stub caller ca ids result =
     Inr (result @ concat (map (\<lambda>v. [ProductJSON v] @ str '','')
            (filter (\<lambda>v. Owner v = caller \<or> ca = GOVERNMENT)
               (map (\<lambda>pid. projr (retrieve_product stub (Itoa pid))) ids))))"
  using assms
proof (induction ids arbitrary: result)
  case Nil
  then show ?case by simp
next
  case (Cons pid ids)
  from Cons.prems obtain v where v: "retrieve_product stub (Itoa pid) = Inr v" by auto
  from Cons.prems have rest: "\<forall>pid\<in>set ids. \<exists>v. retrieve_product stub (Itoa pid) = Inr v"
    by simp
  show ?case
    by (simp add: v Cons.IH [OF rest] get_vehicle_details_def Marshal_Product_def string_of_def)
qed

lemma get_vehicles_loop_fail:
  assumes "\<exists>pid\<in>set ids. \<exists>e. retrieve_product stub (Itoa pid) = Inl e"
  shows "get_vehicles_loop stub caller ca ids result = Inl (Err (str ''Failed to retrieve V5C''))"
  using assms
proof (induction ids arbitrary: result)
  case Nil
  then show ?case by simp
next
  case (Cons pid ids)
  show ?case
  proof (cases "retrieve_product stub (Itoa pid)")
    case (Inl e)
    then show ?thesis by simp
  next
    case (Inr v)
    with Cons.prems have "\<exists>pid\<in>set ids. \<exists>e. retrieve_product stub (Itoa pid) = Inl e"
      by auto
    from Cons.IH [OF this] Inr show ?thesis
      by (simp add: get_vehicle_details_def Marshal_Product_def)
  qed
qed

lemma concat_commas:
  "ds \<noteq> [] \<Longrightarrow> concat (map (\<lambda>d. d @ str '','') ds) = join_with_commas ds @ str '',''"
  by (induction ds rule: join_with_commas.induct) simp_all

lemma close_bracket:
  "(if length (str ''['' @ concat (map (\<lambda>v. [ProductJSON v] @ str '','') vs)) = 1
    then str ''[]''
    else butlast (str ''['' @ concat (map (\<lambda>v. [ProductJSON v] @ str '','') vs)) @ str '']'') =
   str ''['' @ join_with_commas (map (\<lambda>v. [ProductJSON v]) vs) @ str '']''"
proof (cases vs)
  case Nil
  then show ?thesis by (simp add: str_def)
next
  case (Cons v ws)
  have "concat (map (\<lambda>v. [ProductJSON v] @ str '','') vs) =
        concat (map (\<lambda>d. d @ str '','') (map (\<lambda>v. [ProductJSON v]) vs))"
    by (simp add: comp_def)
  also have "\<dots> = join_with_commas (map (\<lambda>v. [ProductJSON v]) vs) @ str '',''"
    using Cons by (intro concat_commas) simp
  finally show ?thesis by (simp add: str_def butlast_append)
qed

text \<open>
  C10. \<^verbatim>\<open>get_vehicles\<close>, once the holder under \<^verbatim>\<open>"v5cIDs"\<close> is read and decoded: if
  every asset the holder lists can be retrieved and decoded, the result is the bracketed,
  comma-separated text of exactly those listed assets that the caller may read (the ones
  it owns, or all of them for a caller with the affiliation GOVERNMENT), in the order of
  the holder, the others being left out without an error; if some listed asset cannot be
  retrieved or decoded, the whole query fails. The stub is as before.
\<close>

theorem get_vehicles_lists_permitted:
  assumes "GetState stub ''v5cIDs'' = (bytes, False)" and "Unmarshal_Holder bytes = Some h"
  shows "get_vehicles stub caller ca =
    (if \<forall>pid\<in>set (ProductIds h). \<exists>v. retrieve_product stub (Itoa pid) = Inr v
     then (Inr (Some (str ''['' @
             join_with_commas (map (\<lambda>v. [ProductJSON v])
               (filter (\<lambda>v. Owner v = caller \<or> ca = GOVERNMENT)
                  (map (\<lambda>pid. projr (retrieve_product stub (Itoa pid))) (ProductIds h)))) @
             str '']'')), stub)
     else (Inl (Err (str ''Failed to retrieve V5C'')), stub))"
proof (cases "\<forall>pid\<in>set (ProductIds h). \<exists>v. retrieve_product stub (Itoa pid) = Inr v")
  case True
  show ?thesis
    using close_bracket [of "filter (\<lambda>v. Owner v = caller \<or> ca = GOVERNMENT)
                  (map (\<lambda>pid. projr (retrieve_product stub (Itoa pid))) (ProductIds h))"]
    by (simp add: get_vehicles_def assms True get_vehicles_loop_ok [OF True] del: length_append
        split: if_splits)
next
  case False
  then have "\<exists>pid\<in>set (ProductIds h). \<exists>e. retrieve_product stub (Itoa pid) = Inl e"
    by (metis sum.exhaust)
  from get_vehicles_loop_fail [OF this] False show ?thesis
    by (simp add: get_vehicles_def assms)
qed


text \<open>
  The example ledger lists one asset, owned by DVLA: DVLA is shown it, Toyota is shown
  the empty list.
\<close>

theorem get_vehicles_witness:
  "GetState example_stub ''v5cIDs'' = (Some [HolderJSON \<lparr>ProductIds = [123456789]\<rparr>], False) \<and>
   Unmarshal_Holder (Some [HolderJSON \<lparr>ProductIds = [123456789]\<rparr>]) =
     Some \<lparr>ProductIds = [123456789]\<rparr> \<and>
   get_vehicles example_stub ''DVLA'' GOVERNMENT =
     (Inr (Some [Ch CHR ''['', ProductJSON example_vehicle, Ch CHR '']'']), example_stub) \<and>
   get_vehicles example_stub ''Toyota'' MANUFACTURER = (Inr (Some (str ''[]'')), example_stub)"
proof -
  have h1: "GetState example_stub ''v5cIDs'' =
      (Some [HolderJSON \<lparr>ProductIds = [123456789]\<rparr>], False)"
    by (simp add: GetState_def example_stub_def)
  have h2: "Unmarshal_Holder (Some [HolderJSON \<lparr>ProductIds = [123456789]\<rparr>]) =
      Some \<lparr>ProductIds = [123456789]\<rparr>"
    by simp
  show ?thesis
    using h1 h2 get_vehicles_lists_permitted [OF h1 h2, of "''DVLA''" GOVERNMENT]
      get_vehicles_lists_permitted [OF h1 h2, of "''Toyota''" MANUFACTURER]
    by (simp add: Itoa_example example_retrieve example_vehicle_fields participant_defs str_def)
qed

subsection \<open>Identity\<close>

lemma parse_digits_None:
  "\<exists>c\<in>set cs. digit_val c = None \<Longrightarrow> parse_digits acc cs = None"
  by (induction cs arbitrary: acc) (auto split: option.splits)

lemma Atoi_not_a_number:
  assumes "\<exists>c\<in>set s. digit_val c = None \<and> c \<noteq> CHR ''-'' \<and> c \<noteq> CHR ''+''"
  shows "Atoi s = (0, True)"
proof -
  from assms obtain c where c: "c \<in> set s" "digit_val c = None" "c \<noteq> CHR ''-''" "c \<noteq> CHR ''+''"
    by blast
  define body where
    "body = (if s \<noteq> [] \<and> (hd s = CHR ''-'' \<or> hd s = CHR ''+'') then tl s else s)"
  from c have "c \<in> set body"
    by (cases s) (auto simp: body_def)
  with c(2) have "parse_digits 0 body = None"
    by (intro parse_digits_None) blast
  then show ?thesis
    by (simp add: Atoi_def Let_def body_def [symmetric])
qed

text \<open>
  C7 (as amended). \<^verbatim>\<open>check_affiliation\<close> splits the common name on the backslash and
  converts the third field with \<^verbatim>\<open>strconv.Atoi\<close>, whose error it drops: when the
  certificate unescapes, decodes and parses and its common name has at least three
  fields, the call succeeds with the value of \<^verbatim>\<open>Atoi\<close>, and that value is 0, with no
  error, when the third field has a character that is neither a digit nor a sign.
\<close>

theorem check_affiliation_drops_the_error:
  assumes "QueryUnescape W cert = Some decodedCert" and "Decode W decodedCert = Some der"
    and "ParseCertificate W der = Some cn" and "2 < length (Split cn (CHR 0x5C))"
  shows "check_affiliation W cert = Inr (fst (Atoi (Split cn (CHR 0x5C) ! 2))) \<and>
         ((\<exists>c\<in>set (Split cn (CHR 0x5C) ! 2). digit_val c = None \<and> c \<noteq> CHR ''-'' \<and> c \<noteq> CHR ''+'')
            \<longrightarrow> check_affiliation W cert = Inr 0)"
proof -
  from assms have r: "check_affiliation W cert = Inr (fst (Atoi (Split cn (CHR 0x5C) ! 2)))"
    by (simp add: check_affiliation_def Let_def)
  then show ?thesis
    by (auto simp: Atoi_not_a_number)
qed

lemma example_world_Mallory:
  "QueryUnescape example_world ''pem Mallory'' = Some ''pem Mallory''"
  "Decode example_world ''pem Mallory'' = Some ''der Mallory''"
  "ParseCertificate example_world ''der Mallory'' =
     Some (''Mallory'' @ [CHR 0x5C] @ ''group1'' @ [CHR 0x5C] @ ''abc'')"
  by (simp_all add: example_world_def)

text \<open>
  C7 as stated fails: for the common name of Mallory, whose third field is \<open>abc\<close>, the
  call succeeds with affiliation 0.
\<close>

theorem check_affiliation_counterexample:
  "ParseCertificate example_world ''der Mallory'' =
     Some (''Mallory'' @ [CHR 0x5C] @ ''group1'' @ [CHR 0x5C] @ ''abc'') \<and>
   Split (''Mallory'' @ [CHR 0x5C] @ ''group1'' @ [CHR 0x5C] @ ''abc'') (CHR 0x5C) ! 2 = ''abc'' \<and>
   Atoi ''abc'' = (0, True) \<and>
   check_affiliation example_world ''pem Mallory'' = Inr 0"
  by (simp add: check_affiliation_def example_world_Mallory Let_def Atoi_def digit_val_def)

text \<open>The amended statement at the certificate of Mallory.\<close>

theorem check_affiliation_witness:
  "QueryUnescape example_world ''pem Mallory'' = Some ''pem Mallory'' \<and>
   Decode example_world ''pem Mallory'' = Some ''der Mallory'' \<and>
   ParseCertificate example_world ''der Mallory'' =
     Some (''Mallory'' @ [CHR 0x5C] @ ''group1'' @ [CHR 0x5C] @ ''abc'') \<and>
   2 < length (Split (''Mallory'' @ [CHR 0x5C] @ ''group1'' @ [CHR 0x5C] @ ''abc'') (CHR 0x5C)) \<and>
   (\<exists>c\<in>set ''abc''. digit_val c = None \<and> c \<noteq> CHR ''-'' \<and> c \<noteq> CHR ''+'') \<and>
   check_affiliation example_world ''pem Mallory'' = Inr 0"
proof -
  have len: "2 < length (Split (''Mallory'' @ [CHR 0x5C] @ ''group1'' @ [CHR 0x5C] @ ''abc'')
                 (CHR 0x5C))"
    by simp
  have bad: "\<exists>c\<in>set ''abc''. digit_val c = None \<and> c \<noteq> CHR ''-'' \<and> c \<noteq> CHR ''+''"
    by (simp add: digit_val_def)
  show ?thesis
    using len bad check_affiliation_drops_the_error [OF example_world_Mallory len]
    by (simp add: example_world_Mallory Atoi_def digit_val_def Let_def)
qed

subsection \<open>Allocation of identifiers\<close>

lemma example_stub_fields:
  "get_fails example_stub = (\<lambda>key. False)" "put_fails example_stub = (\<lambda>key. False)"
  "put_log example_stub = []"
  "ledger example_stub ''productId'' = None"
  "ledger example_stub [] = None"
  "ledger example_stub ''v5cIDs'' = Some [HolderJSON \<lparr>ProductIds = [123456789]\<rparr>]"
  "ledger example_stub ''123456789'' = Some [ProductJSON example_vehicle]"
  "ledger example_stub ''Peer_Address'' = Some (str ''peer'')"
  "caller_certificate example_stub = Some ''caller DVLA''"
  by (simp_all add: example_stub_def)

lemma getAllUsedProductIds_unread:
  assumes "\<not> get_fails stub ''productId''" and "ledger stub ''productId'' = None"
  shows "getAllUsedProductIds stub = Inl (Err (str ''Invalid JSON''))"
  using assms by (simp add: getAllUsedProductIds_def GetState_def)

lemma createRandomId_unread:
  assumes "\<not> get_fails stub ''productId''" and "ledger stub ''productId'' = None"
  shows "createRandomId stub (raw # raws) = Some (Inr (int raw mod 899999999 + 100000000))"
  using assms
  by (simp add: isRandomIdUnused_def getAllUsedProductIds_unread Intn_def)

text \<open>
  C5 says that \<^verbatim>\<open>createRandomId\<close> never returns an identifier of the current index. The
  function reads the index under the key \<^verbatim>\<open>"productId"\<close>, while \<^verbatim>\<open>create_product\<close> and
  \<^verbatim>\<open>get_vehicles\<close> keep it under \<^verbatim>\<open>"v5cIDs"\<close>, and a failed read gives the \<^verbatim>\<open>nil\<close> slice,
  for which every candidate counts as unused. On the example ledger the index lists the
  identifier 123456789, the asset is stored, and the draw 123456789 is returned.
\<close>

theorem createRandomId_returns_used_id:
  "Unmarshal_Holder (fst (GetState example_stub ''v5cIDs'')) = Some \<lparr>ProductIds = [123456789]\<rparr> \<and>
   retrieve_product example_stub (Itoa 123456789) = Inr example_vehicle \<and>
   Product_Id example_vehicle = Itoa 123456789 \<and>
   createRandomId example_stub [23456789] = Some (Inr 123456789)"
proof -
  have "createRandomId example_stub [23456789] = Some (Inr 123456789)"
    using createRandomId_unread [of example_stub 23456789 "[]"]
    by (simp add: example_stub_fields del: createRandomId.simps)
  then show ?thesis
    by (simp add: GetState_def example_stub_fields Itoa_example example_retrieve example_vehicle_id
        del: createRandomId.simps)
qed


subsection \<open>Puts\<close>







text \<open>
  C2 says that \<^verbatim>\<open>create_product\<close> fails with the permission error for every caller whose
  affiliation is not GOVERNMENT. The test of the affiliation sits inside the branch for
  \<^verbatim>\<open>caller1_affiliation == 2 && caller2_affiliation == 3\<close>, and outside that branch the
  function returns \<^verbatim>\<open>(nil, nil)\<close>: with every affiliation BUYER it returns success, and
  the stub is as before.
\<close>

theorem create_product_by_buyer_succeeds:
  "BUYER \<noteq> GOVERNMENT \<and>
   create_product example_world example_stub [0] ''Alice'' ''Bob'' BUYER BUYER
     ''Derby'' 100 ''EUR'' 1 BUYER = Some (Inr None, example_stub)"
proof -
  have id: "createRandomId example_stub [0] = Some (Inr 100000000)"
    using createRandomId_unread [of example_stub 0 "[]"]
    by (simp add: example_stub_fields del: createRandomId.simps)
  show ?thesis
    by (simp add: create_product_def id participant_defs del: createRandomId.simps)
qed

subsection \<open>Routing\<close>

lemma example_get_caller_data: "get_caller_data example_world example_stub = Inr (''DVLA'', 1)"
  by (simp add: get_caller_data_def get_username_def get_ecert_def check_affiliation_def
      GetState_def example_stub_fields example_world_def str_def string_of_def Let_def
      Atoi_def digit_val_def)

lemma example_recipient:
  "get_ecert example_world example_stub ''Toyota'' = Inr ''pem Toyota''"
  "check_affiliation example_world ''pem Toyota'' = Inr 2"
  by (simp_all add: get_ecert_def check_affiliation_def
      GetState_def example_stub_fields example_world_def str_def string_of_def Let_def
      Atoi_def digit_val_def)

text \<open>
  C1 says that \<^verbatim>\<open>Invoke\<close> routes each listed operation to its handler. The calls of the
  handlers are in a comment: for \<^verbatim>\<open>manufacturer_to_buyer\<close>, with an asset, a caller and a
  recipient for which the handler itself succeeds, and likewise for \<^verbatim>\<open>update_make\<close> and
  \<^verbatim>\<open>scrap_vehicle\<close>, \<^verbatim>\<open>Invoke\<close> returns the error for an unknown function and the stub
  is as before.
\<close>

theorem Invoke_routes_to_no_handler:
  "Invoke example_world example_stub [] example_caller_data ''manufacturer_to_buyer''
     [''Toyota'', ''123456789''] =
     Some (Inl (Err (str ''Function of that name doesn't exist.'')), example_stub) \<and>
   manufacturer_to_buyer example_stub example_vehicle ''DVLA'' GOVERNMENT ''Toyota'' MANUFACTURER \<noteq>
     (Inl (Err (str ''Function of that name doesn't exist.'')), example_stub) \<and>
   Invoke example_world example_stub [] example_caller_data ''update_make''
     [''Aygo'', ''123456789''] =
     Some (Inl (Err (str ''Function of that name doesn't exist.'')), example_stub) \<and>
   Invoke example_world example_stub [] example_caller_data ''scrap_vehicle'' [''123456789''] =
     Some (Inl (Err (str ''Function of that name doesn't exist.'')), example_stub)"
  by (simp add: Invoke_def example_get_caller_data example_recipient example_retrieve
      manufacturer_to_buyer_def save_changes_eq example_vehicle_fields example_stub_fields
      status_defs participant_defs)

end
